theory Spec2Isabelle
  imports Complex_Main
begin

section \<open>Topology map: data model\<close>

text \<open>
  The topology UI keeps a list of graph nodes and a list of graph edges as component
  state. A node is either a service node or an application node; it carries its
  identity, its content (\<open>data\<close>), a position owned by the UI, and the two transient
  flags \<open>hidden\<close> and \<open>selected\<close>. Coordinates are JavaScript numbers that the code
  below only copies.
\<close>

datatype node_type = ServiceNode | ApplicationNode

type_synonym xy = "real \<times> real"

record 'd node =
  node_id :: string
  ntype :: node_type
  data :: 'd
  position :: xy
  hidden :: bool
  selected :: bool

record 'e edge =
  edge_id :: string
  source :: string
  target :: string
  edge_hidden :: bool
  edge_data :: 'e

text \<open>An application lists its member services; each member carries its service key.\<close>

record service_minimal =
  member_service :: string
  member_name :: string

record topology_application =
  app_id :: string
  app_name :: string
  services :: "service_minimal list"

text \<open>
  The service record that the forms edit. Identifiers are opaque values here; the
  optional fields may be absent.
\<close>

record topology_service =
  service_id :: string
  service :: string
  display_name :: string
  description :: "string option"
  team :: "string option"
  email :: "string option"
  slack :: "string option"
  environment :: "string option"
  is_manual :: bool
  is_editable :: bool

section \<open>Topology map: component state\<close>

text \<open>
  The options object handed to the renderer's \<open>fitView\<close>, and the zero-delay tasks
  registered with \<open>setTimeout\<close>.
\<close>

record 'd fit_options =
  padding :: real
  minZoom :: "real option"
  maxZoom :: "real option"
  fit_nodes :: "'d node list option"
  duration :: "real option"

datatype 'd task = FitViewTask "'d fit_options"

datatype toast = ErrorToast string | SuccessToast string

text \<open>
  \<open>flow\<close> is \<open>reactFlowInstanceRef.current\<close>: \<open>None\<close> until the renderer has called
  \<open>onInit\<close>, afterwards the node store of the renderer (what \<open>getNode\<close> reads, that is
  the nodes of the last committed render). \<open>timers\<close> holds the tasks scheduled with a
  zero delay that have not run yet; \<open>camera\<close> logs the \<open>fitView\<close> calls that were
  executed on the renderer. State setters called inside one effect are applied in the
  order of the calls.
\<close>

record ('d, 'e) topology_map =
  nodes :: "'d node list"
  edges :: "'e edge list"
  previousNodesIds :: "string set"
  selectedObjectId :: "string option"
  flow :: "'d node list option"
  timers :: "'d task list"
  camera :: "'d fit_options list"
  isServiceModalOpen :: bool
  isDependencyModalOpen :: bool
  selectedService :: "topology_service option"
  toasts :: "toast list"

definition applicationMap ::
  "topology_application list \<Rightarrow> (string \<rightharpoonup> topology_application)" where
  "applicationMap applications = fold (\<lambda>app m. m(app_id app \<mapsto> app)) applications Map.empty"

definition getNode :: "('d, 'e) topology_map \<Rightarrow> string \<Rightarrow> 'd node option" where
  "getNode st i = (case flow st of None \<Rightarrow> None
                   | Some store \<Rightarrow> find (\<lambda>n. node_id n = i) store)"

definition highlightNodes :: "string list \<Rightarrow> ('d, 'e) topology_map \<Rightarrow> ('d, 'e) topology_map" where
  "highlightNodes nodeIds st =
     st\<lparr>nodes := map (\<lambda>n. n\<lparr>selected := node_id n \<in> set nodeIds\<rparr>) (nodes st)\<rparr>"

definition fitViewToServices :: "string list \<Rightarrow> ('d, 'e) topology_map \<Rightarrow> ('d, 'e) topology_map" where
  "fitViewToServices serviceIds st =
     (let nodesToFit = List.map_filter (getNode st) serviceIds
      in st\<lparr>timers := timers st @
            [FitViewTask \<lparr>padding = 0.2, minZoom = None, maxZoom = Some 1,
                          fit_nodes = Some nodesToFit, duration = Some 300\<rparr>]\<rparr>)"

text \<open>Running one scheduled task, and one scheduling tick that runs all of them.\<close>

fun run_task :: "'d task \<Rightarrow> ('d, 'e) topology_map \<Rightarrow> ('d, 'e) topology_map" where
  "run_task (FitViewTask opts) st =
     (case flow st of None \<Rightarrow> st | Some store \<Rightarrow> st\<lparr>camera := camera st @ [opts]\<rparr>)"

definition tick :: "('d, 'e) topology_map \<Rightarrow> ('d, 'e) topology_map" where
  "tick st = fold run_task (timers st) (st\<lparr>timers := []\<rparr>)"

text \<open>The selection effect (the \<open>useEffect\<close> on \<open>selectedObjectId\<close>).\<close>

definition selectionEffect ::
  "bool \<Rightarrow> (string \<rightharpoonup> topology_application) \<Rightarrow> ('d, 'e) topology_map \<Rightarrow> ('d, 'e) topology_map" where
  "selectionEffect isVisible appMap st =
     (case selectedObjectId st of
        None \<Rightarrow> st
      | Some sel \<Rightarrow>
          if \<not> isVisible \<or> sel = [] then st
          else (case getNode st sel of
                  Some n \<Rightarrow>
                    (fitViewToServices [sel] (highlightNodes [sel] st))\<lparr>selectedObjectId := None\<rparr>
                | None \<Rightarrow>
                    (case appMap sel of
                       None \<Rightarrow> st
                     | Some app \<Rightarrow>
                         (let serviceIds = map member_service (services app)
                          in (fitViewToServices serviceIds (highlightNodes serviceIds st))
                               \<lparr>selectedObjectId := None\<rparr>))))"

text \<open>
  Modelled from the spec: \<open>areSetsEqual\<close> of the helpers module, which is not among the
  sources at hand. The new node-id set is compared with the stored one as an unordered
  set.
\<close>

definition areSetsEqual :: "string set \<Rightarrow> string set \<Rightarrow> bool" where
  "areSetsEqual a b = (a = b)"

text \<open>
  The refresh effect \<open>createAndSetLayoutedNodesAndEdges\<close>. The graph builder and the
  layout engine are imported from other modules; they are parameters here. The builder
  returns two insertion-ordered keyed collections, the layout returns the positioned
  nodes and the edges.
\<close>

definition keepPosition :: "'d node list \<Rightarrow> 'd node \<Rightarrow> 'd node" where
  "keepPosition newNodes n =
     (case find (\<lambda>nn. node_id nn = node_id n) newNodes of
        Some newNode \<Rightarrow> newNode\<lparr>position := position n\<rparr>
      | None \<Rightarrow> n)"

definition createAndSetLayoutedNodesAndEdges ::
  "('t \<Rightarrow> (string \<rightharpoonup> topology_application) \<Rightarrow> 'i list
      \<Rightarrow> (string \<times> 'd node) list \<times> (string \<times> 'e edge) list)
   \<Rightarrow> ('d node list \<Rightarrow> 'e edge list \<Rightarrow> 'd node list \<times> 'e edge list)
   \<Rightarrow> 't option \<Rightarrow> (string \<rightharpoonup> topology_application) \<Rightarrow> 'i list option
   \<Rightarrow> ('d, 'e) topology_map \<Rightarrow> ('d, 'e) topology_map" where
  "createAndSetLayoutedNodesAndEdges getNodesAndEdgesFromTopologyData getLayoutedElements
       topologyData appMap allIncidents st =
     (case topologyData of
        None \<Rightarrow> st
      | Some td \<Rightarrow>
          (let (nodeMap, edgeMap) =
                 getNodesAndEdgesFromTopologyData td appMap
                   (case allIncidents of None \<Rightarrow> [] | Some items \<Rightarrow> items);
               newNodes = map snd nodeMap;
               newEdges = map snd edgeMap;
               st1 = (if previousNodesIds st \<noteq> {} \<and>
                         areSetsEqual (previousNodesIds st) (set (map fst nodeMap))
                      then (st\<lparr>edges := newEdges\<rparr>)
                             \<lparr>nodes := map (keepPosition newNodes) (nodes st)\<rparr>
                      else st\<lparr>previousNodesIds := set (map fst nodeMap)\<rparr>);
               layoutedElements = getLayoutedElements newNodes newEdges
           in (st1\<lparr>nodes := fst layoutedElements\<rparr>)\<lparr>edges := snd layoutedElements\<rparr>))"

text \<open>
  The application filter \<open>watchSelectedApplications\<close>. A JavaScript \<open>Set\<close> iterates in
  insertion order, keeping the first occurrence of a value.
\<close>

definition insertion_order :: "'a list \<Rightarrow> 'a list" where
  "insertion_order xs = rev (remdups (rev xs))"

definition selectedServiceNodesIds :: "topology_application list \<Rightarrow> string list \<Rightarrow> string list" where
  "selectedServiceNodesIds applications sel =
     insertion_order
       (concat (map (\<lambda>app. if app_id app \<in> set sel
                            then map member_service (services app) else [])
                    applications))"

definition watchSelectedApplications ::
  "topology_application list \<Rightarrow> string list \<Rightarrow> ('d, 'e) topology_map \<Rightarrow> ('d, 'e) topology_map" where
  "watchSelectedApplications applications sel st =
     (if length sel = 0
      then (st\<lparr>nodes := map (\<lambda>n. n\<lparr>hidden := False\<rparr>) (nodes st)\<rparr>)
              \<lparr>edges := map (\<lambda>e. e\<lparr>edge_hidden := False\<rparr>) (edges st)\<rparr>
      else
        (let ids = selectedServiceNodesIds applications sel;
             st1 = st\<lparr>nodes := map (\<lambda>n. n\<lparr>hidden := (ntype n = ServiceNode \<and> \<not> node_id n \<in> set ids)\<rparr>)
                                  (nodes st)\<rparr>;
             st2 = st1\<lparr>edges := map (\<lambda>e. e\<lparr>edge_hidden :=
                                          \<not> (source e \<in> set ids \<and> target e \<in> set ids)\<rparr>)
                                    (edges st1)\<rparr>;
             nodesToFit = List.map_filter (getNode st) ids
         in (case flow st2 of
               None \<Rightarrow> st2
             | Some store \<Rightarrow>
                 st2\<lparr>camera := camera st2 @
                       [\<lparr>padding = 10, minZoom = Some 0.5, maxZoom = None,
                         fit_nodes = Some nodesToFit, duration = Some 300\<rparr>]\<rparr>)))"

text \<open>The node actions that open the forms.\<close>

definition handleEditService ::
  "topology_service \<Rightarrow> ('d, 'e) topology_map \<Rightarrow> ('d, 'e) topology_map" where
  "handleEditService svc st =
     (if \<not> is_editable svc
      then st\<lparr>toasts := toasts st @
               [ErrorToast ''This service cannot be edited as it is managed by a provider'']\<rparr>
      else (st\<lparr>selectedService := Some svc\<rparr>)\<lparr>isServiceModalOpen := True\<rparr>)"

text \<open>
  What the component renders. While loading or on a fetch error it returns early. Otherwise
  the markup holds the service form, with \<open>isOpen = isServiceModalOpen\<close> and
  \<open>service = selectedService\<close>, and, when a service is selected, the dependency manager,
  whose properties are computed from \<open>topology.services\<close> and \<open>topology.dependencies\<close>.
  The module declares no identifier \<open>topology\<close>: evaluating it throws, so a render with
  a selected service throws and shows nothing.
\<close>

datatype js_error = ReferenceError string

record map_view =
  serviceModal_isOpen :: bool
  serviceModal_service :: "topology_service option"

datatype view = LoadingView | ErrorView | MapView map_view

definition renderTopologyMap ::
  "bool \<Rightarrow> bool \<Rightarrow> ('d, 'e) topology_map \<Rightarrow> js_error + view" where
  "renderTopologyMap isLoading error st =
     (if isLoading then Inr LoadingView
      else if error then Inr ErrorView
      else (case selectedService st of
              None \<Rightarrow>
                Inr (MapView \<lparr>serviceModal_isOpen = isServiceModalOpen st,
                               serviceModal_service = None\<rparr>)
            | Some svc \<Rightarrow> Inl (ReferenceError ''topology'')))"

section \<open>Requests to the backend\<close>

text \<open>
  The calls of the API module that the forms issue. The client is a parameter: given a
  call and the backend's state it answers whether the awaited promise resolved
  (\<open>True\<close>) or rejected (\<open>False\<close>), and the backend's state afterwards. The world of
  a form handler records the calls issued so far in order, the notifications shown, the
  callbacks of the owner that were invoked, and what was written to the console.

  The owner's callbacks run inside the handler's \<open>try\<close> block. What a callback does to
  its owner is outside the form; the handler sees only whether the callback returns
  (\<open>True\<close>) or throws (\<open>False\<close>), which is what an owner is here.
\<close>

record form_data =
  fd_service :: "string option"
  fd_display_name :: "string option"
  fd_description :: "string option"
  fd_team :: "string option"
  fd_email :: "string option"
  fd_slack :: "string option"
  fd_environment :: "string option"

datatype api_call =
    CreateService form_data
  | UpdateService string form_data
  | CreateDependency string string "string option"
  | DeleteDependency string string

datatype callback = OnSuccess | OnClose

record 'b world =
  backend :: 'b
  requests :: "api_call list"
  notifications :: "toast list"
  callbacks :: "callback list"
  console :: "string list"

type_synonym 'b api_client = "api_call \<Rightarrow> 'b \<Rightarrow> bool \<times> 'b"

definition await :: "'b api_client \<Rightarrow> api_call \<Rightarrow> 'b world \<Rightarrow> bool \<times> 'b world" where
  "await api c w =
     (let (ok, b) = api c (backend w)
      in (ok, w\<lparr>backend := b, requests := requests w @ [c]\<rparr>))"

definition createService :: "'b api_client \<Rightarrow> form_data \<Rightarrow> 'b world \<Rightarrow> bool \<times> 'b world" where
  "createService api fd = await api (CreateService fd)"

definition updateService ::
  "'b api_client \<Rightarrow> string \<Rightarrow> form_data \<Rightarrow> 'b world \<Rightarrow> bool \<times> 'b world" where
  "updateService api serviceId fd = await api (UpdateService serviceId fd)"

definition createDependency ::
  "'b api_client \<Rightarrow> string \<Rightarrow> string \<Rightarrow> string option \<Rightarrow> 'b world \<Rightarrow> bool \<times> 'b world" where
  "createDependency api serviceId targetServiceId protocol =
     await api (CreateDependency serviceId targetServiceId protocol)"

definition deleteDependency ::
  "'b api_client \<Rightarrow> string \<Rightarrow> string \<Rightarrow> 'b world \<Rightarrow> bool \<times> 'b world" where
  "deleteDependency api serviceId targetServiceId =
     await api (DeleteDependency serviceId targetServiceId)"

definition showSuccessToast :: "string \<Rightarrow> 'b world \<Rightarrow> 'b world" where
  "showSuccessToast msg w = w\<lparr>notifications := notifications w @ [SuccessToast msg]\<rparr>"

definition showErrorToast :: "string \<Rightarrow> 'b world \<Rightarrow> 'b world" where
  "showErrorToast msg w = w\<lparr>notifications := notifications w @ [ErrorToast msg]\<rparr>"

type_synonym owner = "callback \<Rightarrow> bool"

definition invoke :: "owner \<Rightarrow> callback \<Rightarrow> 'b world \<Rightarrow> bool \<times> 'b world" where
  "invoke own cb w = (own cb, w\<lparr>callbacks := callbacks w @ [cb]\<rparr>)"

text \<open>
  The callbacks that the topology map passes to its two forms: \<open>onClose\<close> clears the
  open flag; \<open>onSuccess\<close> is \<open>handleServiceModalSuccess\<close> or
  \<open>handleDependencyModalSuccess\<close>, whose body calls \<open>refetchTopology\<close>, an identifier
  that the module does not declare, so the call throws.
\<close>

fun topologyMapCallbacks :: owner where
  "topologyMapCallbacks OnSuccess = False"
| "topologyMapCallbacks OnClose = True"

text \<open>
  The statements of a \<open>try\<close> block in sequence: a statement that throws leaves the
  block with the world as it is at that point.
\<close>

definition andThen :: "bool \<times> 'w \<Rightarrow> ('w \<Rightarrow> bool \<times> 'w) \<Rightarrow> bool \<times> 'w" where
  "andThen r f = (case r of (True, w) \<Rightarrow> f w | (False, w) \<Rightarrow> (False, w))"

definition console_error :: "string \<Rightarrow> 'b world \<Rightarrow> 'b world" where
  "console_error msg w = w\<lparr>console := console w @ [msg]\<rparr>"

text \<open>
  A \<open>for ... of\<close> loop whose body awaits one call: the next iteration starts only when
  the previous call has resolved, and a rejection leaves the loop at once.
\<close>

fun forEachAwait :: "('a \<Rightarrow> 'w \<Rightarrow> bool \<times> 'w) \<Rightarrow> 'a list \<Rightarrow> 'w \<Rightarrow> bool \<times> 'w" where
  "forEachAwait f [] w = (True, w)"
| "forEachAwait f (x # xs) w =
     (case f x w of
        (True, w') \<Rightarrow> forEachAwait f xs w'
      | (False, w') \<Rightarrow> (False, w'))"

section \<open>The service form\<close>

datatype field = Service | DisplayName | Description | Team | Email | Slack | Environment

record service_modal =
  formData :: form_data
  isLoading :: bool

definition initialFormData :: form_data where
  "initialFormData =
     \<lparr>fd_service = Some [], fd_display_name = Some [], fd_description = Some [],
      fd_team = Some [], fd_email = Some [], fd_slack = Some [],
      fd_environment = Some ''production''\<rparr>"

definition initialServiceModal :: service_modal where
  "initialServiceModal = \<lparr>formData = initialFormData, isLoading = False\<rparr>"

text \<open>
  The effect on the \<open>service\<close> property copies the service into the form when there
  is one, and does nothing when there is none.
\<close>

definition serviceEffect :: "topology_service option \<Rightarrow> service_modal \<Rightarrow> service_modal" where
  "serviceEffect svc st =
     (case svc of
        None \<Rightarrow> st
      | Some s \<Rightarrow>
          st\<lparr>formData :=
               \<lparr>fd_service = Some (service s),
                fd_display_name = Some (display_name s),
                fd_description = description s,
                fd_team = team s,
                fd_email = email s,
                fd_slack = slack s,
                fd_environment =
                  (case environment s of
                     None \<Rightarrow> Some ''production''
                   | Some env \<Rightarrow> if env = [] then Some ''production'' else Some env)\<rparr>\<rparr>)"

fun onChange :: "field \<Rightarrow> string \<Rightarrow> service_modal \<Rightarrow> service_modal" where
  "onChange Service v st = st\<lparr>formData := (formData st)\<lparr>fd_service := Some v\<rparr>\<rparr>"
| "onChange DisplayName v st = st\<lparr>formData := (formData st)\<lparr>fd_display_name := Some v\<rparr>\<rparr>"
| "onChange Description v st = st\<lparr>formData := (formData st)\<lparr>fd_description := Some v\<rparr>\<rparr>"
| "onChange Team v st = st\<lparr>formData := (formData st)\<lparr>fd_team := Some v\<rparr>\<rparr>"
| "onChange Email v st = st\<lparr>formData := (formData st)\<lparr>fd_email := Some v\<rparr>\<rparr>"
| "onChange Slack v st = st\<lparr>formData := (formData st)\<lparr>fd_slack := Some v\<rparr>\<rparr>"
| "onChange Environment v st = st\<lparr>formData := (formData st)\<lparr>fd_environment := Some v\<rparr>\<rparr>"

definition ServiceModal_handleSubmit ::
  "'b api_client \<Rightarrow> owner \<Rightarrow> topology_service option \<Rightarrow> service_modal \<Rightarrow> 'b world
     \<Rightarrow> service_modal \<times> 'b world" where
  "ServiceModal_handleSubmit api own svc st w =
     (let st1 = st\<lparr>isLoading := True\<rparr>;
          (ok, w1) =
            andThen
              (andThen
                 (case svc of
                    Some s \<Rightarrow>
                      andThen (updateService api (service_id s) (formData st) w)
                        (\<lambda>w'. (True, showSuccessToast ''Service updated successfully'' w'))
                  | None \<Rightarrow>
                      andThen (createService api (formData st) w)
                        (\<lambda>w'. (True, showSuccessToast ''Service created successfully'' w')))
                 (invoke own OnSuccess))
              (invoke own OnClose);
          w2 = (if ok then w1
                else showErrorToast
                       (''Failed to '' @ (case svc of Some s \<Rightarrow> ''update'' | None \<Rightarrow> ''create'')
                          @ '' service. Please try again.'')
                       (console_error ''Failed to save service:'' w1))
      in (st1\<lparr>isLoading := False\<rparr>, w2))"

text \<open>
  The life of one mounted form: the owner changes the \<open>service\<close> property (the effect
  runs after the render), the user types into a field.
\<close>

datatype modal_event = SetServiceProp "topology_service option" | Change field string

fun modal_step :: "modal_event \<Rightarrow> service_modal \<Rightarrow> service_modal" where
  "modal_step (SetServiceProp svc) st = serviceEffect svc st"
| "modal_step (Change f v) st = onChange f v st"

definition mountServiceModal :: "topology_service option \<Rightarrow> service_modal" where
  "mountServiceModal svc = serviceEffect svc initialServiceModal"

text \<open>The inputs that the form renders, with the attributes the markup gives them.\<close>

record form_input =
  input_id :: string
  input_value :: string
  required :: bool
  disabled :: bool

definition shown :: "string option \<Rightarrow> string" where
  "shown v = (case v of None \<Rightarrow> [] | Some s \<Rightarrow> s)"

definition renderedInputs :: "topology_service option \<Rightarrow> service_modal \<Rightarrow> form_input list" where
  "renderedInputs svc st =
     [\<lparr>input_id = ''service'', input_value = shown (fd_service (formData st)),
        required = True, disabled = (svc \<noteq> None)\<rparr>,
      \<lparr>input_id = ''display_name'', input_value = shown (fd_display_name (formData st)),
        required = True, disabled = False\<rparr>,
      \<lparr>input_id = ''description'', input_value = shown (fd_description (formData st)),
        required = False, disabled = False\<rparr>,
      \<lparr>input_id = ''team'', input_value = shown (fd_team (formData st)),
        required = False, disabled = False\<rparr>,
      \<lparr>input_id = ''email'', input_value = shown (fd_email (formData st)),
        required = False, disabled = False\<rparr>,
      \<lparr>input_id = ''slack'', input_value = shown (fd_slack (formData st)),
        required = False, disabled = False\<rparr>,
      \<lparr>input_id = ''environment'', input_value = shown (fd_environment (formData st)),
        required = True, disabled = False\<rparr>]"

text \<open>
  Modelled from the spec: the client-side required-field check that runs when the submit
  button of a form is pressed. It belongs to the input component and the browser, which
  are not part of the sources at hand. A required input that is enabled and empty rejects
  the submission, and the form's submit handler is not called. Only this constraint is
  modelled.
\<close>

definition requiredFieldsFilled :: "form_input list \<Rightarrow> bool" where
  "requiredFieldsFilled inputs =
     list_all (\<lambda>i. required i \<and> \<not> disabled i \<longrightarrow> input_value i \<noteq> []) inputs"

definition pressSubmit ::
  "'b api_client \<Rightarrow> owner \<Rightarrow> topology_service option \<Rightarrow> service_modal \<Rightarrow> 'b world
     \<Rightarrow> service_modal \<times> 'b world" where
  "pressSubmit api own svc st w =
     (if isLoading st then (st, w)
      else if requiredFieldsFilled (renderedInputs svc st)
           then ServiceModal_handleSubmit api own svc st w
           else (st, w))"

section \<open>The dependency manager\<close>

record dependency_manager =
  selectedDependencies :: "string list"
  dm_isLoading :: bool

definition existingDependenciesEffect :: "string list \<Rightarrow> dependency_manager \<Rightarrow> dependency_manager" where
  "existingDependenciesEffect existingDependencies st =
     st\<lparr>selectedDependencies := existingDependencies\<rparr>"

definition mountDependencyManager :: "string list \<Rightarrow> dependency_manager" where
  "mountDependencyManager existingDependencies =
     existingDependenciesEffect existingDependencies
       \<lparr>selectedDependencies = [], dm_isLoading = False\<rparr>"

definition toggleDependency :: "string \<Rightarrow> dependency_manager \<Rightarrow> dependency_manager" where
  "toggleDependency serviceId st =
     st\<lparr>selectedDependencies :=
          (if serviceId \<in> set (selectedDependencies st)
           then filter (\<lambda>i. i \<noteq> serviceId) (selectedDependencies st)
           else selectedDependencies st @ [serviceId])\<rparr>"

text \<open>The services for which the form renders a checkbox.\<close>

definition selectableServices :: "topology_service \<Rightarrow> topology_service list \<Rightarrow> topology_service list" where
  "selectableServices svc availableServices =
     filter (\<lambda>s. service_id s \<noteq> service_id svc) availableServices"

definition removedDependencies :: "string list \<Rightarrow> string list \<Rightarrow> string list" where
  "removedDependencies existingDependencies chosen =
     filter (\<lambda>dep. \<not> dep \<in> set chosen) existingDependencies"

definition newDependencies :: "string list \<Rightarrow> string list \<Rightarrow> string list" where
  "newDependencies existingDependencies chosen =
     filter (\<lambda>dep. \<not> dep \<in> set existingDependencies) chosen"

definition DependencyManager_handleSubmit ::
  "'b api_client \<Rightarrow> owner \<Rightarrow> topology_service \<Rightarrow> string list \<Rightarrow> dependency_manager
     \<Rightarrow> 'b world \<Rightarrow> dependency_manager \<times> 'b world" where
  "DependencyManager_handleSubmit api own svc existingDependencies st w =
     (let st1 = st\<lparr>dm_isLoading := True\<rparr>;
          removed = removedDependencies existingDependencies (selectedDependencies st);
          new = newDependencies existingDependencies (selectedDependencies st);
          (ok, w2) =
            andThen
              (andThen
                 (andThen
                    (andThen
                       (forEachAwait (\<lambda>depId. deleteDependency api (service_id svc) depId)
                          removed w)
                       (forEachAwait (\<lambda>depId. createDependency api (service_id svc) depId None)
                          new))
                    (\<lambda>w'. (True, showSuccessToast ''Dependencies updated successfully'' w')))
                 (invoke own OnSuccess))
              (invoke own OnClose);
          w3 = (if ok then w2
                else showErrorToast ''Failed to update dependencies. Please try again.''
                       (console_error ''Failed to update dependencies:'' w2))
      in (st1\<lparr>dm_isLoading := False\<rparr>, w3))"

section \<open>Notions used to state the properties\<close>

text \<open>
  The union of the member service ids over the selected applications, as the
  specification words it.
\<close>

definition memberUnion :: "topology_application list \<Rightarrow> string list \<Rightarrow> string set" where
  "memberUnion applications sel =
     (\<Union>app \<in> {a \<in> set applications. app_id a \<in> set sel}.
        member_service ` set (services app))"

text \<open>
  The options of a selection-driven fit and of a filter-driven fit, and the options that
  a scheduled task carries.
\<close>

definition selectionFit :: "'d node list \<Rightarrow> 'd fit_options" where
  "selectionFit ns = \<lparr>padding = 0.2, minZoom = None, maxZoom = Some 1,
                      fit_nodes = Some ns, duration = Some 300\<rparr>"

definition filterFit :: "'d node list \<Rightarrow> 'd fit_options" where
  "filterFit ns = \<lparr>padding = 10, minZoom = Some 0.5, maxZoom = None,
                   fit_nodes = Some ns, duration = Some 300\<rparr>"

fun task_options :: "'d task \<Rightarrow> 'd fit_options" where
  "task_options (FitViewTask opts) = opts"

text \<open>The call that a submission of the service form issues.\<close>

definition submitCall :: "topology_service option \<Rightarrow> service_modal \<Rightarrow> api_call" where
  "submitCall svc st =
     (case svc of None \<Rightarrow> CreateService (formData st)
      | Some s \<Rightarrow> UpdateService (service_id s) (formData st))"

text \<open>
  The events of a form's life that leave the environment field at \<open>production\<close>: an
  edit of another field, a change of the \<open>service\<close> property to no service, and a
  change to a service whose environment is absent, empty or \<open>production\<close>.
\<close>

fun keepsProduction :: "modal_event \<Rightarrow> bool" where
  "keepsProduction (Change f v) = (f \<noteq> Environment)"
| "keepsProduction (SetServiceProp None) = True"
| "keepsProduction (SetServiceProp (Some s)) =
     (environment s = None \<or> environment s = Some [] \<or> environment s = Some ''production'')"

text \<open>
  The backend state after a list of calls that all resolve, issued one after the other;
  \<open>None\<close> when one of them rejects.
\<close>

fun commits :: "'b api_client \<Rightarrow> api_call list \<Rightarrow> 'b \<Rightarrow> 'b option" where
  "commits api [] b = Some b"
| "commits api (c # cs) b =
     (case api c b of (True, b') \<Rightarrow> commits api cs b' | (False, b') \<Rightarrow> None)"

text \<open>
  The batch of a dependency submission as the specification words it: the delete calls
  for the existing dependencies that are no longer selected, then the create calls for
  the selected dependencies that did not exist.
\<close>

definition submitPlan :: "string \<Rightarrow> string list \<Rightarrow> string list \<Rightarrow> api_call list" where
  "submitPlan serviceId existingDependencies chosen =
     map (DeleteDependency serviceId) [d \<leftarrow> existingDependencies. d \<notin> set chosen] @
     map (\<lambda>d. CreateDependency serviceId d None) [d \<leftarrow> chosen. d \<notin> set existingDependencies]"

text \<open>
  The life of one mounted dependency manager: its properties and its state. The user
  ticks or unticks a checkbox; the owner passes a new list of existing dependencies (the
  effect, which depends on that list alone, resets the selection after the render),
  another service, or another list of available services (no effect runs).
\<close>

record dm_instance =
  dm_service :: topology_service
  dm_available :: "topology_service list"
  dm_existing :: "string list"
  dm_state :: dependency_manager

datatype dm_event =
    Toggle string
  | ExistingChanged "string list"
  | ServiceChanged topology_service
  | AvailableChanged "topology_service list"

fun dm_step :: "dm_event \<Rightarrow> dm_instance \<Rightarrow> dm_instance" where
  "dm_step (Toggle i) v = v\<lparr>dm_state := toggleDependency i (dm_state v)\<rparr>"
| "dm_step (ExistingChanged ex) v =
     v\<lparr>dm_existing := ex, dm_state := existingDependenciesEffect ex (dm_state v)\<rparr>"
| "dm_step (ServiceChanged svc) v = v\<lparr>dm_service := svc\<rparr>"
| "dm_step (AvailableChanged av) v = v\<lparr>dm_available := av\<rparr>"

definition mountInstance ::
  "topology_service \<Rightarrow> topology_service list \<Rightarrow> string list \<Rightarrow> dm_instance" where
  "mountInstance svc availableServices existingDependencies =
     \<lparr>dm_service = svc, dm_available = availableServices,
      dm_existing = existingDependencies,
      dm_state = mountDependencyManager existingDependencies\<rparr>"

text \<open>
  The events that the amended claim C8 admits: a checkbox can be toggled when the form
  renders it, and the service is not changed to one that is ticked as a new target.
\<close>

fun allowed :: "dm_event \<Rightarrow> dm_instance \<Rightarrow> bool" where
  "allowed (Toggle i) v =
     (i \<in> set (map service_id (selectableServices (dm_service v) (dm_available v))))"
| "allowed (ExistingChanged ex) v = True"
| "allowed (ServiceChanged svc) v =
     (service_id svc \<in> set (selectedDependencies (dm_state v))
        \<longrightarrow> service_id svc \<in> set (dm_existing v))"
| "allowed (AvailableChanged av) v = True"

fun allowed_run :: "dm_event list \<Rightarrow> dm_instance \<Rightarrow> bool" where
  "allowed_run [] v = True"
| "allowed_run (ev # evs) v = (allowed ev v \<and> allowed_run evs (dm_step ev v))"

definition self_only_if_existing :: "dm_instance \<Rightarrow> bool" where
  "self_only_if_existing v =
     (service_id (dm_service v) \<in> set (selectedDependencies (dm_state v))
        \<longrightarrow> service_id (dm_service v) \<in> set (dm_existing v))"

text \<open>No application node is hidden.\<close>

definition applicationsVisible :: "'d node list \<Rightarrow> bool" where
  "applicationsVisible ns = list_all (\<lambda>n. ntype n = ApplicationNode \<longrightarrow> \<not> hidden n) ns"

section \<open>Sample data\<close>

definition sample_node :: "string \<Rightarrow> node_type \<Rightarrow> xy \<Rightarrow> bool \<Rightarrow> string node" where
  "sample_node i t p h =
     \<lparr>node_id = i, ntype = t, data = ''v1'', position = p, hidden = h, selected = False\<rparr>"

definition sample_edge :: "string \<Rightarrow> string \<Rightarrow> string edge" where
  "sample_edge s t =
     \<lparr>edge_id = s @ ''-'' @ t, source = s, target = t, edge_hidden = False, edge_data = ''http''\<rparr>"

definition sample_map :: "string node list \<Rightarrow> string option \<Rightarrow> (string, string) topology_map" where
  "sample_map ns sel =
     \<lparr>nodes = ns, edges = [sample_edge ''a'' ''b''], previousNodesIds = set (map node_id ns),
      selectedObjectId = sel, flow = Some ns, timers = [],
      camera = [], isServiceModalOpen = False, isDependencyModalOpen = False,
      selectedService = None, toasts = []\<rparr>"

definition sample_app1 :: topology_application where
  "sample_app1 = \<lparr>app_id = ''app1'', app_name = ''Shop'',
                   services = [\<lparr>member_service = ''a'', member_name = ''A''\<rparr>]\<rparr>"

definition sample_app2 :: topology_application where
  "sample_app2 = \<lparr>app_id = ''app2'', app_name = ''Billing'',
                   services = [\<lparr>member_service = ''b'', member_name = ''B''\<rparr>,
                               \<lparr>member_service = ''c'', member_name = ''C''\<rparr>]\<rparr>"

definition sample_applications :: "topology_application list" where
  "sample_applications = [sample_app1, sample_app2]"

definition sample_nodes :: "string node list" where
  "sample_nodes = [sample_node ''a'' ServiceNode (5, 5) False,
                   sample_node ''b'' ServiceNode (9, 9) False,
                   sample_node ''app1'' ApplicationNode (0, 0) False]"

definition sample_appMap :: "string \<rightharpoonup> topology_application" where
  "sample_appMap = applicationMap sample_applications"

text \<open>
  A refresh of a map that shows the single service node \<open>a\<close>, which the user has dragged
  to \<open>(5, 5)\<close>: the builder yields the same node id with new content, and the layout
  used for the example puts every node at the origin.
\<close>

definition sample_build ::
  "string \<Rightarrow> (string \<rightharpoonup> topology_application) \<Rightarrow> unit list
     \<Rightarrow> (string \<times> string node) list \<times> (string \<times> string edge) list" where
  "sample_build td appMap incidents =
     ([(''a'', \<lparr>node_id = ''a'', ntype = ServiceNode, data = td, position = (0, 0),
                hidden = False, selected = False\<rparr>)], [])"

definition origin_layout ::
  "string node list \<Rightarrow> string edge list \<Rightarrow> string node list \<times> string edge list" where
  "origin_layout ns es = (map (\<lambda>n. n\<lparr>position := (0, 0)\<rparr>) ns, es)"

definition dragged_map :: "(string, string) topology_map" where
  "dragged_map = (sample_map [sample_node ''a'' ServiceNode (5, 5) False] None)\<lparr>edges := []\<rparr>"

definition sample_service :: "bool \<Rightarrow> topology_service" where
  "sample_service editable =
     \<lparr>service_id = ''1'', service = ''api'', display_name = ''API'', description = None,
      team = None, email = None, slack = None, environment = Some ''production'',
      is_manual = False, is_editable = editable\<rparr>"

definition staging_service :: topology_service where
  "staging_service =
     \<lparr>service_id = ''7'', service = ''billing'', display_name = ''Billing'',
      description = None, team = None, email = None, slack = None,
      environment = Some ''staging'', is_manual = True, is_editable = True\<rparr>"

text \<open>
  A backend that counts the calls it has accepted and rejects every call once it has
  accepted \<open>limit\<close> of them.
\<close>

definition limited_api :: "nat \<Rightarrow> nat api_client" where
  "limited_api limit c b = (if b < limit then (True, Suc b) else (False, b))"

definition returning :: owner where
  "returning cb = True"

definition sample_world :: "nat world" where
  "sample_world = \<lparr>backend = 0, requests = [], notifications = [], callbacks = [], console = []\<rparr>"

definition sample_available :: "topology_service list" where
  "sample_available =
     map (\<lambda>i. (sample_service True)\<lparr>service_id := i\<rparr>) [''1'', ''2'', ''3'', ''4'', ''5'']"

definition sample_clicks :: "dm_event list" where
  "sample_clicks = [Toggle ''2'', Toggle ''4'', Toggle ''5'']"

definition sample_service2 :: topology_service where
  "sample_service2 = (sample_service True)\<lparr>service_id := ''2''\<rparr>"

definition sample_manager :: dependency_manager where
  "sample_manager = \<lparr>selectedDependencies = [''3'', ''4'', ''5''], dm_isLoading = False\<rparr>"

section \<open>The application filter\<close>

text \<open>
  The set of ids that the filter computes is the union of the member service ids over
  the selected applications.
\<close>

lemma set_insertion_order: "set (insertion_order xs) = set xs"
  by (simp add: insertion_order_def)

lemma set_selectedServiceNodesIds:
  "set (selectedServiceNodesIds applications sel) = memberUnion applications sel"
  by (auto simp: selectedServiceNodesIds_def memberUnion_def set_insertion_order split: if_splits)

lemma nodes_watchSelectedApplications:
  "nodes (watchSelectedApplications applications sel st) =
     (if sel = [] then map (\<lambda>n. n\<lparr>hidden := False\<rparr>) (nodes st)
      else map (\<lambda>n. n\<lparr>hidden := (ntype n = ServiceNode \<and> node_id n \<notin> memberUnion applications sel)\<rparr>)
             (nodes st))"
  by (simp add: watchSelectedApplications_def Let_def set_selectedServiceNodesIds
      split: option.splits)

lemma edges_watchSelectedApplications:
  "edges (watchSelectedApplications applications sel st) =
     (if sel = [] then map (\<lambda>e. e\<lparr>edge_hidden := False\<rparr>) (edges st)
      else map (\<lambda>e. e\<lparr>edge_hidden := (source e \<notin> memberUnion applications sel
                                          \<or> target e \<notin> memberUnion applications sel)\<rparr>)
             (edges st))"
  by (simp add: watchSelectedApplications_def Let_def set_selectedServiceNodesIds
      split: option.splits)

lemma memberUnion_sample [simp]: "memberUnion sample_applications [''app1''] = {''a''}"
  unfolding set_selectedServiceNodesIds [symmetric]
  by (simp add: selectedServiceNodesIds_def sample_applications_def sample_app1_def
      sample_app2_def insertion_order_def)

lemma sample_map_simps:
  "nodes (sample_map ns sel) = ns"
  "edges (sample_map ns sel) = [sample_edge ''a'' ''b'']"
  "selectedObjectId (sample_map ns sel) = sel"
  "flow (sample_map ns sel) = Some ns"
  "timers (sample_map ns sel) = []"
  "camera (sample_map ns sel) = []"
  by (simp_all add: sample_map_def)

lemma visible_node_unhidden: "\<not> hidden n \<Longrightarrow> n\<lparr>hidden := False\<rparr> = n"
  by (cases n) simp

text \<open>
  No code of the component hides an application node: the filter leaves none hidden, and
  the selection effect and the edit action do not touch the flag.
\<close>

lemma applicationsVisible_watchSelectedApplications:
  "applicationsVisible (nodes (watchSelectedApplications applications sel st))"
  by (simp add: applicationsVisible_def nodes_watchSelectedApplications list_all_iff)

lemma applicationsVisible_highlightNodes:
  "applicationsVisible (nodes st) \<Longrightarrow> applicationsVisible (nodes (highlightNodes ids st))"
  by (simp add: applicationsVisible_def highlightNodes_def list_all_iff)

lemma applicationsVisible_selectionEffect:
  "applicationsVisible (nodes st) \<Longrightarrow>
     applicationsVisible (nodes (selectionEffect isVisible appMap st))"
  by (auto simp: selectionEffect_def fitViewToServices_def Let_def
      applicationsVisible_highlightNodes split: option.splits)

lemma applicationsVisible_handleEditService:
  "applicationsVisible (nodes st) \<Longrightarrow> applicationsVisible (nodes (handleEditService svc st))"
  by (simp add: handleEditService_def)

text \<open>
  Claim C3. With an empty selection every node and every edge comes out with
  \<open>hidden = False\<close> and is otherwise unchanged. With a non-empty selection, \<open>U\<close> being
  the union of the member service ids over the selected applications, every node comes
  out unchanged but for \<open>hidden\<close>, which holds exactly when the node is a service node
  whose id is not in \<open>U\<close>; every edge comes out unchanged but for \<open>hidden\<close>, which holds
  exactly when its source or its target is not in \<open>U\<close>. The filter does not alter the
  visibility of application nodes: whatever the selection, none ends hidden, and an
  application node that is visible, as all of them are in the states that the component
  produces, comes out as it was.
\<close>

theorem C3_application_filter:
  "(sel = [] \<longrightarrow>
      list_all2 (\<lambda>n n'. n' = n\<lparr>hidden := False\<rparr>)
        (nodes st) (nodes (watchSelectedApplications applications sel st)) \<and>
      list_all2 (\<lambda>e e'. e' = e\<lparr>edge_hidden := False\<rparr>)
        (edges st) (edges (watchSelectedApplications applications sel st))) \<and>
   (sel \<noteq> [] \<longrightarrow>
      list_all2 (\<lambda>n n'. n' = n\<lparr>hidden := (ntype n = ServiceNode
                                    \<and> node_id n \<notin> memberUnion applications sel)\<rparr>)
        (nodes st) (nodes (watchSelectedApplications applications sel st)) \<and>
      list_all2 (\<lambda>e e'. e' = e\<lparr>edge_hidden := (source e \<notin> memberUnion applications sel
                                    \<or> target e \<notin> memberUnion applications sel)\<rparr>)
        (edges st) (edges (watchSelectedApplications applications sel st)) \<and>
      (\<forall>n' \<in> set (nodes (watchSelectedApplications applications sel st)).
         ntype n' = ApplicationNode \<longrightarrow> \<not> hidden n')) \<and>
   list_all2 (\<lambda>n n'. ntype n = ApplicationNode \<and> \<not> hidden n \<longrightarrow> n' = n)
     (nodes st) (nodes (watchSelectedApplications applications sel st)) \<and>
   (applicationsVisible (nodes st) \<longrightarrow>
      list_all2 (\<lambda>n n'. ntype n = ApplicationNode \<longrightarrow> hidden n' = hidden n)
        (nodes st) (nodes (watchSelectedApplications applications sel st)))"
  by (auto simp: nodes_watchSelectedApplications edges_watchSelectedApplications
      list_all2_map2 list_all2_same visible_node_unhidden applicationsVisible_def
      list_all_iff)

theorem C3_application_filter_witness:
  "applicationsVisible (nodes (sample_map sample_nodes None)) \<and>
   nodes (watchSelectedApplications sample_applications [] (sample_map sample_nodes None))
     = sample_nodes \<and>
   nodes (watchSelectedApplications sample_applications [''app1''] (sample_map sample_nodes None))
     = [sample_node ''a'' ServiceNode (5, 5) False, sample_node ''b'' ServiceNode (9, 9) True,
        sample_node ''app1'' ApplicationNode (0, 0) False] \<and>
   edges (watchSelectedApplications sample_applications [''app1''] (sample_map sample_nodes None))
     = [(sample_edge ''a'' ''b'')\<lparr>edge_hidden := True\<rparr>]"
  using C3_application_filter [of "[]" "sample_map sample_nodes None" sample_applications]
    C3_application_filter [of "[''app1'']" "sample_map sample_nodes None" sample_applications]
  by (simp add: sample_map_simps sample_nodes_def sample_node_def sample_edge_def
      list_all2_Cons1 applicationsVisible_def)

section \<open>The selection effect\<close>

lemma getNode_highlightNodes [simp]: "getNode (highlightNodes ids st) = getNode st"
  by (rule ext) (simp add: getNode_def highlightNodes_def)

lemma flow_fold_run_task: "flow (fold run_task ts st) = flow st"
proof (induction ts arbitrary: st)
  case Nil
  show ?case by simp
next
  case (Cons t ts)
  show ?case by (cases t) (simp add: Cons.IH split: option.splits)
qed

lemma camera_fold_run_task:
  "flow st = Some store \<Longrightarrow> camera (fold run_task ts st) = camera st @ map task_options ts"
proof (induction ts arbitrary: st)
  case Nil
  show ?case by simp
next
  case (Cons t ts)
  then show ?case by (cases t) simp
qed

lemma camera_tick:
  "flow st = Some store \<Longrightarrow> camera (tick st) = camera st @ map task_options (timers st)"
  by (simp add: tick_def camera_fold_run_task)

lemma getNode_Some_flow: "getNode st i = Some n \<Longrightarrow> \<exists>store. flow st = Some store"
  by (simp add: getNode_def split: option.splits)

text \<open>
  Claim C4. When the map is visible and the selected id is not empty, the effect resolves
  the id in this order. (a) If the renderer has a node with that id, the nodes come out
  with \<open>selected\<close> set exactly on the nodes with that id, the edges are unchanged, and a
  fit to that node is scheduled, which the next tick executes. (b) Otherwise, if the id
  is the id of a known application, \<open>selected\<close> is set exactly on the nodes whose id is
  a member service id of the application, and a fit to the rendered ones among them is
  scheduled. (c) Otherwise the state is unchanged.
\<close>

theorem C4_selection_resolution:
  assumes "isVisible" and "selectedObjectId st = Some sel" and "sel \<noteq> []"
  shows "(\<forall>n. getNode st sel = Some n \<longrightarrow>
            nodes (selectionEffect isVisible appMap st)
              = map (\<lambda>m. m\<lparr>selected := (node_id m = sel)\<rparr>) (nodes st) \<and>
            edges (selectionEffect isVisible appMap st) = edges st \<and>
            timers (selectionEffect isVisible appMap st)
              = timers st @ [FitViewTask (selectionFit [n])] \<and>
            camera (tick (selectionEffect isVisible appMap st))
              = camera (tick st) @ [selectionFit [n]])
       \<and> (\<forall>app. getNode st sel = None \<and> appMap sel = Some app \<longrightarrow>
            nodes (selectionEffect isVisible appMap st)
              = map (\<lambda>m. m\<lparr>selected := (node_id m \<in> member_service ` set (services app))\<rparr>)
                    (nodes st) \<and>
            edges (selectionEffect isVisible appMap st) = edges st \<and>
            timers (selectionEffect isVisible appMap st)
              = timers st @ [FitViewTask (selectionFit
                   (List.map_filter (getNode st) (map member_service (services app))))] \<and>
            (flow st \<noteq> None \<longrightarrow>
               camera (tick (selectionEffect isVisible appMap st))
                 = camera (tick st) @ [selectionFit
                     (List.map_filter (getNode st) (map member_service (services app)))]))
       \<and> (getNode st sel = None \<and> appMap sel = None \<longrightarrow>
            selectionEffect isVisible appMap st = st)"
proof (intro conjI allI impI)
  fix n assume n: "getNode st sel = Some n"
  then obtain store where store: "flow st = Some store"
    using getNode_Some_flow by blast
  have eff: "selectionEffect isVisible appMap st
      = (fitViewToServices [sel] (highlightNodes [sel] st))\<lparr>selectedObjectId := None\<rparr>"
    using assms n by (simp add: selectionEffect_def)
  show "nodes (selectionEffect isVisible appMap st)
          = map (\<lambda>m. m\<lparr>selected := (node_id m = sel)\<rparr>) (nodes st)"
    by (simp add: eff fitViewToServices_def highlightNodes_def Let_def)
  show "edges (selectionEffect isVisible appMap st) = edges st"
    by (simp add: eff fitViewToServices_def highlightNodes_def Let_def)
  show t: "timers (selectionEffect isVisible appMap st)
          = timers st @ [FitViewTask (selectionFit [n])]"
    using n by (simp add: eff fitViewToServices_def Let_def selectionFit_def)
               (simp add: highlightNodes_def)
  have "flow (selectionEffect isVisible appMap st) = Some store"
    by (simp add: eff fitViewToServices_def highlightNodes_def Let_def store)
  moreover have "camera (selectionEffect isVisible appMap st) = camera st"
    by (simp add: eff fitViewToServices_def highlightNodes_def Let_def)
  ultimately show "camera (tick (selectionEffect isVisible appMap st))
          = camera (tick st) @ [selectionFit [n]]"
    using store by (simp add: camera_tick t)
next
  fix app assume "getNode st sel = None \<and> appMap sel = Some app"
  then have eff: "selectionEffect isVisible appMap st
      = (fitViewToServices (map member_service (services app))
           (highlightNodes (map member_service (services app)) st))\<lparr>selectedObjectId := None\<rparr>"
    using assms by (simp add: selectionEffect_def Let_def)
  show "nodes (selectionEffect isVisible appMap st)
          = map (\<lambda>m. m\<lparr>selected := (node_id m \<in> member_service ` set (services app))\<rparr>)
                (nodes st)"
    by (simp add: eff fitViewToServices_def highlightNodes_def Let_def)
  show "edges (selectionEffect isVisible appMap st) = edges st"
    by (simp add: eff fitViewToServices_def highlightNodes_def Let_def)
  show t: "timers (selectionEffect isVisible appMap st)
          = timers st @ [FitViewTask (selectionFit
               (List.map_filter (getNode st) (map member_service (services app))))]"
    by (simp add: eff fitViewToServices_def Let_def selectionFit_def)
       (simp add: highlightNodes_def)
  assume "flow st \<noteq> None"
  then obtain store where store: "flow st = Some store" by blast
  have "flow (selectionEffect isVisible appMap st) = Some store"
    by (simp add: eff fitViewToServices_def highlightNodes_def Let_def store)
  moreover have "camera (selectionEffect isVisible appMap st) = camera st"
    by (simp add: eff fitViewToServices_def highlightNodes_def Let_def)
  ultimately show "camera (tick (selectionEffect isVisible appMap st))
          = camera (tick st) @ [selectionFit
              (List.map_filter (getNode st) (map member_service (services app)))]"
    using store by (simp add: camera_tick t)
next
  assume "getNode st sel = None \<and> appMap sel = None"
  then show "selectionEffect isVisible appMap st = st"
    using assms by (simp add: selectionEffect_def)
qed

lemma sample_appMap_simps:
  "sample_appMap ''app2'' = Some sample_app2"
  "sample_appMap ''zzz'' = None"
  "sample_appMap ''a'' = None"
  by (simp_all add: sample_appMap_def applicationMap_def sample_applications_def
      sample_app1_def sample_app2_def)

lemma getNode_sample_map:
  "getNode (sample_map sample_nodes sel) ''a'' = Some (sample_node ''a'' ServiceNode (5, 5) False)"
  "getNode (sample_map sample_nodes sel) ''b'' = Some (sample_node ''b'' ServiceNode (9, 9) False)"
  "getNode (sample_map sample_nodes sel) ''c'' = None"
  "getNode (sample_map sample_nodes sel) ''app2'' = None"
  "getNode (sample_map sample_nodes sel) ''zzz'' = None"
  by (simp_all add: getNode_def sample_map_simps sample_nodes_def sample_node_def)

theorem C4_selection_resolution_witness:
  "nodes (selectionEffect True sample_appMap (sample_map sample_nodes (Some ''a'')))
     = map (\<lambda>m. m\<lparr>selected := (node_id m = ''a'')\<rparr>) sample_nodes \<and>
   timers (selectionEffect True sample_appMap (sample_map sample_nodes (Some ''a'')))
     = [FitViewTask (selectionFit [sample_node ''a'' ServiceNode (5, 5) False])] \<and>
   nodes (selectionEffect True sample_appMap (sample_map sample_nodes (Some ''app2'')))
     = map (\<lambda>m. m\<lparr>selected := (node_id m \<in> {''b'', ''c''})\<rparr>) sample_nodes \<and>
   camera (tick (selectionEffect True sample_appMap (sample_map sample_nodes (Some ''app2''))))
     = [selectionFit [sample_node ''b'' ServiceNode (9, 9) False]] \<and>
   selectionEffect True sample_appMap (sample_map sample_nodes (Some ''zzz''))
     = sample_map sample_nodes (Some ''zzz'')"
proof -
  have t: "camera (tick (sample_map sample_nodes (Some ''app2''))) = []"
    by (simp add: tick_def sample_map_simps)
  have s: "services sample_app2
             = [\<lparr>member_service = ''b'', member_name = ''B''\<rparr>,
                \<lparr>member_service = ''c'', member_name = ''C''\<rparr>]"
    by (simp add: sample_app2_def)
  show ?thesis
    using C4_selection_resolution [of True "sample_map sample_nodes (Some ''a'')" "''a''" sample_appMap]
      C4_selection_resolution [of True "sample_map sample_nodes (Some ''app2'')" "''app2''" sample_appMap]
      C4_selection_resolution [of True "sample_map sample_nodes (Some ''zzz'')" "''zzz''" sample_appMap]
    by (simp add: getNode_sample_map sample_map_simps t s sample_appMap_simps)
qed

section \<open>The refresh effect\<close>

text \<open>
  The merge that the effect applies when the node-id set is unchanged takes every field
  of the newly built node but the position, which it keeps.
\<close>

lemma keepPosition_found:
  "find (\<lambda>nn. node_id nn = node_id n) newNodes = Some newNode \<Longrightarrow>
     keepPosition newNodes n = newNode\<lparr>position := position n\<rparr>"
  by (simp add: keepPosition_def)

text \<open>
  Whatever the previous state, the effect ends by storing the nodes and the edges that the
  layout returns for the newly built collections: the merge above is overwritten.
\<close>

lemma refresh_nodes_are_layouted:
  "nodes (createAndSetLayoutedNodesAndEdges build lay (Some td) appMap allIncidents st)
     = fst (lay (map snd (fst (build td appMap (case allIncidents of None \<Rightarrow> [] | Some items \<Rightarrow> items))))
                (map snd (snd (build td appMap (case allIncidents of None \<Rightarrow> [] | Some items \<Rightarrow> items)))))"
  by (simp add: createAndSetLayoutedNodesAndEdges_def Let_def split: prod.splits)

text \<open>
  Claim C1 at a failing input. The stored node-id set is not empty and equals the newly
  built one, the node \<open>a\<close> sits at \<open>(5, 5)\<close>, and after the refresh it sits where
  the layout puts it, at \<open>(0, 0)\<close>.
\<close>

theorem C1_stable_refresh_moves_dragged_node:
  "previousNodesIds dragged_map \<noteq> {} \<and>
   areSetsEqual (previousNodesIds dragged_map)
     (set (map fst (fst (sample_build ''v2'' Map.empty [])))) \<and>
   map position (nodes dragged_map) = [(5, 5)] \<and>
   map position (nodes (createAndSetLayoutedNodesAndEdges sample_build origin_layout
                          (Some ''v2'') Map.empty None dragged_map)) = [(0, 0)]"
  by (simp add: createAndSetLayoutedNodesAndEdges_def Let_def dragged_map_def sample_map_def
      sample_build_def origin_layout_def areSetsEqual_def sample_node_def)

section \<open>Deferred and immediate fits\<close>

text \<open>
  Claim C2 at a failing input. With the application \<open>app1\<close> selected, the filter
  has executed its fit on the renderer when the effect returns, and has scheduled
  nothing; the selection-driven fit to the same node is scheduled and not yet executed.
\<close>

theorem C2_filter_fit_is_immediate:
  "timers (watchSelectedApplications sample_applications [''app1'']
             (sample_map sample_nodes None)) = [] \<and>
   camera (watchSelectedApplications sample_applications [''app1'']
             (sample_map sample_nodes None))
     = [filterFit [sample_node ''a'' ServiceNode (5, 5) False]] \<and>
   timers (fitViewToServices [''a''] (sample_map sample_nodes None))
     = [FitViewTask (selectionFit [sample_node ''a'' ServiceNode (5, 5) False])] \<and>
   camera (fitViewToServices [''a''] (sample_map sample_nodes None)) = []"
proof -
  have ids: "selectedServiceNodesIds sample_applications [''app1''] = [''a'']"
    by (simp add: selectedServiceNodesIds_def sample_applications_def sample_app1_def
      sample_app2_def insertion_order_def)
  show ?thesis
    by (simp add: watchSelectedApplications_def Let_def ids fitViewToServices_def
        getNode_sample_map sample_map_simps filterFit_def selectionFit_def)
qed

section \<open>The edit action\<close>

text \<open>
  What the handler does to the component state: for a service that is not editable it
  shows the error notification and changes nothing else, so the form is not opened and
  no service is selected; for an editable service it selects the service and sets the
  open flag of the form. The handler has no access to the backend.
\<close>

lemma handleEditService_cases:
  "(\<not> is_editable svc \<longrightarrow>
      handleEditService svc st
        = st\<lparr>toasts := toasts st @
              [ErrorToast ''This service cannot be edited as it is managed by a provider'']\<rparr>) \<and>
   (is_editable svc \<longrightarrow>
      handleEditService svc st = st\<lparr>selectedService := Some svc, isServiceModalOpen := True\<rparr>)"
  by (simp add: handleEditService_def)

lemma not_editable_render_unchanged:
  "\<not> is_editable svc \<Longrightarrow>
     renderTopologyMap loading error (handleEditService svc st)
       = renderTopologyMap loading error st"
  by (simp add: handleEditService_def renderTopologyMap_def split: option.splits)

text \<open>
  The render that follows the edit action on an editable service throws: the form is
  never shown.
\<close>

lemma editable_render_throws:
  "is_editable svc \<Longrightarrow> \<not> loading \<Longrightarrow> \<not> error \<Longrightarrow>
     renderTopologyMap loading error (handleEditService svc st)
       = Inl (ReferenceError ''topology'')"
  by (simp add: handleEditService_def renderTopologyMap_def)

text \<open>
  Claim C6 at a failing input. The service is editable and the map renders before the
  edit action; after the action the open flag is set and the service is selected, and
  the render throws on the undeclared identifier instead of showing the form.
\<close>

theorem C6_editable_service_render_throws:
  "is_editable (sample_service True) \<and>
   renderTopologyMap False False (sample_map sample_nodes None)
     = Inr (MapView \<lparr>serviceModal_isOpen = False, serviceModal_service = None\<rparr>) \<and>
   isServiceModalOpen (handleEditService (sample_service True) (sample_map sample_nodes None)) \<and>
   selectedService (handleEditService (sample_service True) (sample_map sample_nodes None))
     = Some (sample_service True) \<and>
   renderTopologyMap False False
       (handleEditService (sample_service True) (sample_map sample_nodes None))
     = Inl (ReferenceError ''topology'')"
  by (simp add: handleEditService_def renderTopologyMap_def sample_service_def sample_map_def)

section \<open>Submitting the service form\<close>

lemma await_eq:
  "await api c w = (fst (api c (backend w)),
                    w\<lparr>backend := snd (api c (backend w)), requests := requests w @ [c]\<rparr>)"
  by (simp add: await_def split: prod.splits)

lemmas world_ops = showSuccessToast_def showErrorToast_def invoke_def console_error_def
  andThen_def

lemma ServiceModal_handleSubmit_requests:
  "requests (snd (ServiceModal_handleSubmit api own svc st w)) = requests w @ [submitCall svc st]"
  by (cases svc)
     (simp_all add: ServiceModal_handleSubmit_def submitCall_def createService_def
        updateService_def await_eq world_ops Let_def split: bool.splits)

text \<open>
  The outcome of a submission in every case. When the call rejects, the error
  notification is shown and no callback is invoked. When it resolves, the success
  notification is shown and \<open>onSuccess\<close> is invoked; \<open>onClose\<close> is invoked when
  \<open>onSuccess\<close> returns; when a callback throws, the error notification is shown as
  well. The form always ends with \<open>isLoading = False\<close>, so it can be submitted again.
\<close>

lemma ServiceModal_handleSubmit_outcome:
  "fst (ServiceModal_handleSubmit api own svc st w) = st\<lparr>isLoading := False\<rparr> \<and>
   notifications (snd (ServiceModal_handleSubmit api own svc st w))
     = notifications w @
       (if fst (api (submitCall svc st) (backend w))
        then SuccessToast (''Service '' @ (case svc of Some s \<Rightarrow> ''updated'' | None \<Rightarrow> ''created'')
                             @ '' successfully'')
             # (if own OnSuccess \<and> own OnClose then []
                else [ErrorToast (''Failed to ''
                        @ (case svc of Some s \<Rightarrow> ''update'' | None \<Rightarrow> ''create'')
                        @ '' service. Please try again.'')])
        else [ErrorToast (''Failed to '' @ (case svc of Some s \<Rightarrow> ''update'' | None \<Rightarrow> ''create'')
                            @ '' service. Please try again.'')]) \<and>
   callbacks (snd (ServiceModal_handleSubmit api own svc st w))
     = callbacks w @
       (if fst (api (submitCall svc st) (backend w))
        then OnSuccess # (if own OnSuccess then [OnClose] else [])
        else [])"
  by (cases svc)
     (simp_all add: ServiceModal_handleSubmit_def submitCall_def createService_def
        updateService_def await_eq world_ops Let_def split: bool.splits)

text \<open>
  Claim C7 at a failing input. The form is in create mode under the topology map, and
  the create call resolves. The success notification is shown and \<open>onSuccess\<close> is
  invoked; it throws, so the error notification follows and \<open>onClose\<close> is not invoked.
  With the same form the rejected call behaves as the claim says.
\<close>

theorem C7_success_path_ends_in_error:
  "requests (snd (ServiceModal_handleSubmit (limited_api 1) topologyMapCallbacks None
                    (mountServiceModal None) sample_world))
     = [CreateService initialFormData] \<and>
   backend (snd (ServiceModal_handleSubmit (limited_api 1) topologyMapCallbacks None
                   (mountServiceModal None) sample_world)) = 1 \<and>
   notifications (snd (ServiceModal_handleSubmit (limited_api 1) topologyMapCallbacks None
                         (mountServiceModal None) sample_world))
     = [SuccessToast ''Service created successfully'',
        ErrorToast ''Failed to create service. Please try again.''] \<and>
   callbacks (snd (ServiceModal_handleSubmit (limited_api 1) topologyMapCallbacks None
                     (mountServiceModal None) sample_world)) = [OnSuccess] \<and>
   notifications (snd (ServiceModal_handleSubmit (limited_api 0) topologyMapCallbacks None
                         (mountServiceModal None) sample_world))
     = [ErrorToast ''Failed to create service. Please try again.''] \<and>
   callbacks (snd (ServiceModal_handleSubmit (limited_api 0) topologyMapCallbacks None
                     (mountServiceModal None) sample_world)) = []"
  by (simp add: ServiceModal_handleSubmit_def createService_def await_eq world_ops Let_def
      limited_api_def sample_world_def mountServiceModal_def serviceEffect_def
      initialServiceModal_def)

text \<open>
  Claim C9. In create mode, pressing the submit button while the service name is empty
  issues no call and leaves the form as it is.
\<close>

theorem C9_empty_service_name_is_rejected:
  "shown (fd_service (formData st)) = [] \<Longrightarrow> pressSubmit api own None st w = (st, w)"
  by (simp add: pressSubmit_def requiredFieldsFilled_def renderedInputs_def)

theorem C9_empty_service_name_is_rejected_witness:
  "shown (fd_service (formData (onChange DisplayName ''New Service'' (mountServiceModal None)))) = [] \<and>
   requests (snd (pressSubmit (limited_api 1) returning None
                    (onChange DisplayName ''New Service'' (mountServiceModal None)) sample_world)) = [] \<and>
   requests (snd (pressSubmit (limited_api 1) returning None
                    (onChange Service ''new-service''
                       (onChange DisplayName ''New Service'' (mountServiceModal None))) sample_world))
     \<noteq> []"
proof -
  have e: "shown (fd_service (formData (onChange DisplayName ''New Service'' (mountServiceModal None)))) = []"
    by (simp add: mountServiceModal_def serviceEffect_def initialServiceModal_def
        initialFormData_def shown_def)
  have r: "requests (snd (pressSubmit (limited_api 1) returning None
                    (onChange Service ''new-service''
                       (onChange DisplayName ''New Service'' (mountServiceModal None))) sample_world))
     \<noteq> []"
    by (simp add: pressSubmit_def requiredFieldsFilled_def renderedInputs_def
        mountServiceModal_def serviceEffect_def initialServiceModal_def
        initialFormData_def shown_def ServiceModal_handleSubmit_requests)
  show ?thesis
    using C9_empty_service_name_is_rejected [OF e, of "limited_api 1" returning sample_world] e r
    by (simp add: sample_world_def)
qed

text \<open>
  Claim C10, as stated, fails for a form that showed an existing service before: the
  form keeps the values of that service when the property changes to no service, and
  the create request carries its environment.
\<close>

theorem C10_stale_environment_is_sent:
  "requests (snd (ServiceModal_handleSubmit (limited_api 1) returning None
                    (modal_step (SetServiceProp None)
                       (mountServiceModal (Some staging_service)))
                    sample_world))
     = [CreateService \<lparr>fd_service = Some ''billing'', fd_display_name = Some ''Billing'',
                       fd_description = None, fd_team = None, fd_email = None,
                       fd_slack = None, fd_environment = Some ''staging''\<rparr>]"
  by (simp add: ServiceModal_handleSubmit_requests submitCall_def
      mountServiceModal_def serviceEffect_def initialServiceModal_def staging_service_def
      sample_world_def)

lemma modal_step_keeps_production:
  "keepsProduction ev \<Longrightarrow> fd_environment (formData st) = Some ''production'' \<Longrightarrow>
     fd_environment (formData (modal_step ev st)) = Some ''production''"
proof (induction ev rule: keepsProduction.induct)
  case (1 f v)
  then show ?case by (cases f) simp_all
next
  case 2
  then show ?case by (simp add: serviceEffect_def)
next
  case (3 s)
  then show ?case by (auto simp: serviceEffect_def)
qed

lemma fold_modal_step_keeps_production:
  "list_all keepsProduction evs \<Longrightarrow> fd_environment (formData st) = Some ''production'' \<Longrightarrow>
     fd_environment (formData (fold modal_step evs st)) = Some ''production''"
  by (induction evs arbitrary: st) (simp_all add: modal_step_keeps_production)

text \<open>
  Claim C10, amended. When the form is mounted in create mode, the environment field is
  never edited, and the form is not filled meanwhile from a service with another
  environment than \<open>production\<close>, a submission in create mode issues the create call with
  the form state as it is, whose environment is \<open>production\<close>.
\<close>

theorem C10_create_sends_production:
  assumes "list_all keepsProduction evs"
    and "st = fold modal_step evs (mountServiceModal None)"
  shows "requests (snd (ServiceModal_handleSubmit api own None st w))
           = requests w @ [CreateService (formData st)] \<and>
         fd_environment (formData st) = Some ''production''"
proof -
  have "fd_environment (formData (mountServiceModal None)) = Some ''production''"
    by (simp add: mountServiceModal_def serviceEffect_def initialServiceModal_def
        initialFormData_def)
  then have "fd_environment (formData st) = Some ''production''"
    using assms by (simp add: fold_modal_step_keeps_production)
  moreover have "requests (snd (ServiceModal_handleSubmit api own None st w))
           = requests w @ [CreateService (formData st)]"
    by (simp add: ServiceModal_handleSubmit_requests submitCall_def)
  ultimately show ?thesis by simp
qed

theorem C10_create_sends_production_witness:
  "list_all keepsProduction [Change Service ''new-service'', Change DisplayName ''New Service''] \<and>
   requests (snd (ServiceModal_handleSubmit (limited_api 1) returning None
                    (fold modal_step [Change Service ''new-service'', Change DisplayName ''New Service'']
                       (mountServiceModal None)) sample_world))
     = [CreateService \<lparr>fd_service = Some ''new-service'', fd_display_name = Some ''New Service'',
                       fd_description = Some [], fd_team = Some [], fd_email = Some [],
                       fd_slack = Some [], fd_environment = Some ''production''\<rparr>]"
proof -
  have k: "list_all keepsProduction [Change Service ''new-service'', Change DisplayName ''New Service'']"
    by simp
  have f: "formData (fold modal_step [Change Service ''new-service'', Change DisplayName ''New Service'']
                       (mountServiceModal None))
           = \<lparr>fd_service = Some ''new-service'', fd_display_name = Some ''New Service'',
                       fd_description = Some [], fd_team = Some [], fd_email = Some [],
                       fd_slack = Some [], fd_environment = Some ''production''\<rparr>"
    by (simp add: mountServiceModal_def serviceEffect_def initialServiceModal_def
        initialFormData_def)
  have "requests (snd (ServiceModal_handleSubmit (limited_api 1) returning None
                    (fold modal_step [Change Service ''new-service'', Change DisplayName ''New Service'']
                       (mountServiceModal None)) sample_world))
          = requests sample_world @
            [CreateService (formData (fold modal_step
               [Change Service ''new-service'', Change DisplayName ''New Service'']
               (mountServiceModal None)))]"
    using C10_create_sends_production [OF k refl, of "limited_api 1" returning sample_world]
    by (rule conjunct1)
  also have "\<dots> = [CreateService \<lparr>fd_service = Some ''new-service'',
                       fd_display_name = Some ''New Service'',
                       fd_description = Some [], fd_team = Some [], fd_email = Some [],
                       fd_slack = Some [], fd_environment = Some ''production''\<rparr>]"
    unfolding f by (simp add: sample_world_def)
  finally show ?thesis using k by blast
qed

section \<open>Submitting a batch of dependency changes\<close>

lemma forEachAwait_map: "forEachAwait (\<lambda>x. f (g x)) xs w = forEachAwait f (map g xs) w"
  by (induction xs arbitrary: w) (simp_all split: prod.splits bool.splits)

lemma forEachAwait_append:
  "forEachAwait f (xs @ ys) w = andThen (forEachAwait f xs w) (forEachAwait f ys)"
  by (induction xs arbitrary: w) (simp_all add: andThen_def split: prod.splits bool.splits)

text \<open>
  The two loops of the handler are one run over the batch; what follows the run depends
  on its outcome and on the owner's callbacks.
\<close>

lemma DependencyManager_handleSubmit_run:
  "DependencyManager_handleSubmit api own svc existingDependencies st w =
     (st\<lparr>dm_isLoading := False\<rparr>,
      case forEachAwait (await api)
             (submitPlan (service_id svc) existingDependencies (selectedDependencies st)) w of
        (True, w2) \<Rightarrow>
          (if own OnSuccess \<and> own OnClose
           then w2\<lparr>notifications := notifications w2 @
                      [SuccessToast ''Dependencies updated successfully''],
                    callbacks := callbacks w2 @ [OnSuccess, OnClose]\<rparr>
           else w2\<lparr>notifications := notifications w2 @
                      [SuccessToast ''Dependencies updated successfully'',
                       ErrorToast ''Failed to update dependencies. Please try again.''],
                    callbacks := callbacks w2 @ OnSuccess # (if own OnSuccess then [OnClose] else []),
                    console := console w2 @ [''Failed to update dependencies:'']\<rparr>)
      | (False, w2) \<Rightarrow> showErrorToast ''Failed to update dependencies. Please try again.''
                         (console_error ''Failed to update dependencies:'' w2))"
proof -
  have d: "(\<lambda>depId. deleteDependency api (service_id svc) depId)
             = (\<lambda>depId. await api (DeleteDependency (service_id svc) depId))"
    by (simp add: deleteDependency_def)
  have c: "(\<lambda>depId. createDependency api (service_id svc) depId None)
             = (\<lambda>depId. await api (CreateDependency (service_id svc) depId None))"
    by (simp add: createDependency_def)
  have run: "andThen
       (forEachAwait (\<lambda>depId. await api (DeleteDependency (service_id svc) depId))
          (removedDependencies existingDependencies (selectedDependencies st)) w)
       (forEachAwait (\<lambda>depId. await api (CreateDependency (service_id svc) depId None))
          (newDependencies existingDependencies (selectedDependencies st)))
     = forEachAwait (await api)
         (submitPlan (service_id svc) existingDependencies (selectedDependencies st)) w"
    unfolding submitPlan_def forEachAwait_append removedDependencies_def newDependencies_def
      forEachAwait_map [of "await api" "DeleteDependency (service_id svc)"]
      forEachAwait_map [of "await api" "\<lambda>d. CreateDependency (service_id svc) d None"]
    by (rule refl)
  show ?thesis
    unfolding DependencyManager_handleSubmit_def Let_def d c run
    by (simp add: world_ops split: prod.splits bool.splits)
qed

lemma forEachAwait_await_Cons:
  "forEachAwait (await api) (c # cs) w =
     (if fst (api c (backend w))
      then forEachAwait (await api) cs
             (w\<lparr>backend := snd (api c (backend w)), requests := requests w @ [c]\<rparr>)
      else (False, w\<lparr>backend := snd (api c (backend w)), requests := requests w @ [c]\<rparr>))"
  by (simp add: await_eq)

lemma forEachAwait_all_commit:
  "commits api plan (backend w) = Some b' \<Longrightarrow>
     forEachAwait (await api) plan w = (True, w\<lparr>backend := b', requests := requests w @ plan\<rparr>)"
proof (induction plan arbitrary: w)
  case Nil
  then show ?case by simp
next
  case (Cons c cs)
  from Cons.prems obtain b1 where b1: "api c (backend w) = (True, b1)"
    and rest: "commits api cs b1 = Some b'"
    by (auto split: prod.splits bool.splits)
  have "forEachAwait (await api) cs (w\<lparr>backend := b1, requests := requests w @ [c]\<rparr>)
          = (True, w\<lparr>backend := b', requests := requests w @ c # cs\<rparr>)"
    using Cons.IH [of "w\<lparr>backend := b1, requests := requests w @ [c]\<rparr>"] rest by simp
  then show ?case by (simp add: forEachAwait_await_Cons b1 del: forEachAwait.simps)
qed

lemma forEachAwait_stops_at_rejection:
  "commits api pre (backend w) = Some b1 \<Longrightarrow> \<not> fst (api c b1) \<Longrightarrow>
     forEachAwait (await api) (pre @ c # post) w
       = (False, w\<lparr>backend := snd (api c b1), requests := requests w @ pre @ [c]\<rparr>)"
proof (induction pre arbitrary: w)
  case Nil
  then show ?case by (simp add: forEachAwait_await_Cons del: forEachAwait.simps)
next
  case (Cons p ps)
  from Cons.prems(1) obtain b0 where b0: "api p (backend w) = (True, b0)"
    and rest: "commits api ps b0 = Some b1"
    by (auto split: prod.splits bool.splits)
  have "forEachAwait (await api) (ps @ c # post) (w\<lparr>backend := b0, requests := requests w @ [p]\<rparr>)
          = (False, w\<lparr>backend := snd (api c b1), requests := requests w @ p # ps @ [c]\<rparr>)"
    using Cons.IH [of "w\<lparr>backend := b0, requests := requests w @ [p]\<rparr>"] rest Cons.prems(2)
    by simp
  then show ?case by (simp add: forEachAwait_await_Cons b0 del: forEachAwait.simps)
qed

text \<open>
  Claim C5. The handler issues the delete calls, then the create calls, each one on the
  backend state that the previous call left. When every call resolves, all of them are
  issued, the success notification is shown and \<open>onSuccess\<close> is invoked, and
  \<open>onClose\<close> after it when it returns (a callback that throws adds the error
  notification). When a call rejects after the calls before it resolved, the calls
  before it stay applied to the backend, the calls after it are not issued, the error
  notification is shown and no callback is invoked. The form ends ready for another
  submission.
\<close>

theorem C5_dependency_batch_is_sequential:
  "(\<forall>b'. commits api (submitPlan (service_id svc) existingDependencies (selectedDependencies st))
            (backend w) = Some b' \<longrightarrow>
      snd (DependencyManager_handleSubmit api own svc existingDependencies st w)
        = w\<lparr>backend := b',
             requests := requests w @
               submitPlan (service_id svc) existingDependencies (selectedDependencies st),
             notifications := notifications w @
               SuccessToast ''Dependencies updated successfully''
               # (if own OnSuccess \<and> own OnClose then []
                  else [ErrorToast ''Failed to update dependencies. Please try again.'']),
             callbacks := callbacks w @ OnSuccess # (if own OnSuccess then [OnClose] else []),
             console := console w @
               (if own OnSuccess \<and> own OnClose then []
                else [''Failed to update dependencies:''])\<rparr>) \<and>
   (\<forall>pre c post b1.
      submitPlan (service_id svc) existingDependencies (selectedDependencies st)
        = pre @ c # post \<and>
      commits api pre (backend w) = Some b1 \<and> \<not> fst (api c b1) \<longrightarrow>
      snd (DependencyManager_handleSubmit api own svc existingDependencies st w)
        = w\<lparr>backend := snd (api c b1),
             requests := requests w @ pre @ [c],
             notifications := notifications w @
               [ErrorToast ''Failed to update dependencies. Please try again.''],
             console := console w @ [''Failed to update dependencies:'']\<rparr>) \<and>
   fst (DependencyManager_handleSubmit api own svc existingDependencies st w)
     = st\<lparr>dm_isLoading := False\<rparr>"
  by (auto simp: DependencyManager_handleSubmit_run forEachAwait_all_commit
      forEachAwait_stops_at_rejection world_ops)

lemma sample_plan:
  "submitPlan (service_id (sample_service True)) [''2'', ''3'']
     (selectedDependencies sample_manager)
     = [DeleteDependency ''1'' ''2'', CreateDependency ''1'' ''4'' None,
        CreateDependency ''1'' ''5'' None]"
  by (simp add: submitPlan_def sample_service_def sample_manager_def)

theorem C5_dependency_batch_is_sequential_witness:
  "snd (DependencyManager_handleSubmit (limited_api 3) returning (sample_service True)
          [''2'', ''3''] sample_manager sample_world)
     = \<lparr>backend = 3,
        requests = [DeleteDependency ''1'' ''2'', CreateDependency ''1'' ''4'' None,
                    CreateDependency ''1'' ''5'' None],
        notifications = [SuccessToast ''Dependencies updated successfully''],
        callbacks = [OnSuccess, OnClose], console = []\<rparr> \<and>
   snd (DependencyManager_handleSubmit (limited_api 1) returning (sample_service True)
          [''2'', ''3''] sample_manager sample_world)
     = \<lparr>backend = 1,
        requests = [DeleteDependency ''1'' ''2'', CreateDependency ''1'' ''4'' None],
        notifications = [ErrorToast ''Failed to update dependencies. Please try again.''],
        callbacks = [], console = [''Failed to update dependencies:'']\<rparr>"
proof -
  have ok: "commits (limited_api 3)
              [DeleteDependency ''1'' ''2'', CreateDependency ''1'' ''4'' None,
               CreateDependency ''1'' ''5'' None] (backend sample_world) = Some 3"
    by (simp add: limited_api_def sample_world_def)
  have pre: "commits (limited_api 1) [DeleteDependency ''1'' ''2''] (backend sample_world) = Some 1"
    by (simp add: limited_api_def sample_world_def)
  have rej: "\<not> fst (limited_api 1 (CreateDependency ''1'' ''4'' None) 1)"
    by (simp add: limited_api_def)
  have split: "submitPlan (service_id (sample_service True)) [''2'', ''3'']
                 (selectedDependencies sample_manager)
               = [DeleteDependency ''1'' ''2''] @ CreateDependency ''1'' ''4'' None
                   # [CreateDependency ''1'' ''5'' None]"
    by (simp add: sample_plan)
  note all_ok = C5_dependency_batch_is_sequential [of "limited_api 3" "sample_service True"
      "[''2'', ''3'']" sample_manager sample_world returning, THEN conjunct1, rule_format,
      OF ok [folded sample_plan]]
  note stops = C5_dependency_batch_is_sequential [of "limited_api 1" "sample_service True"
      "[''2'', ''3'']" sample_manager sample_world returning, THEN conjunct2, THEN conjunct1,
      rule_format, OF conjI [OF split conjI [OF pre rej]]]
  show ?thesis
    unfolding all_ok stops sample_plan
    by (simp add: sample_world_def limited_api_def returning_def)
qed

section \<open>No self-dependency\<close>

lemma forEachAwait_requests:
  "\<exists>issued. requests (snd (forEachAwait (await api) plan w)) = requests w @ issued \<and>
            set issued \<subseteq> set plan"
proof (induction plan arbitrary: w)
  case Nil
  show ?case by simp
next
  case (Cons c cs)
  show ?case
  proof (cases "fst (api c (backend w))")
    case True
    obtain issued where
      "requests (snd (forEachAwait (await api) cs
          (w\<lparr>backend := snd (api c (backend w)), requests := requests w @ [c]\<rparr>)))
        = (requests w @ [c]) @ issued" and "set issued \<subseteq> set cs"
      using Cons.IH [of "w\<lparr>backend := snd (api c (backend w)), requests := requests w @ [c]\<rparr>"]
      by auto
    then show ?thesis
      using True
      by (intro exI [of _ "c # issued"])
         (auto simp: forEachAwait_await_Cons simp del: forEachAwait.simps)
  next
    case False
    then show ?thesis
      by (intro exI [of _ "[c]"])
         (simp add: forEachAwait_await_Cons del: forEachAwait.simps)
  qed
qed

lemma DependencyManager_handleSubmit_requests:
  "\<exists>issued. requests (snd (DependencyManager_handleSubmit api own svc existingDependencies st w))
              = requests w @ issued \<and>
            set issued \<subseteq> set (submitPlan (service_id svc) existingDependencies
                                  (selectedDependencies st))"
proof -
  obtain issued where
    "requests (snd (forEachAwait (await api)
        (submitPlan (service_id svc) existingDependencies (selectedDependencies st)) w))
       = requests w @ issued"
    and "set issued \<subseteq> set (submitPlan (service_id svc) existingDependencies
                                  (selectedDependencies st))"
    using forEachAwait_requests by blast
  then show ?thesis
    by (intro exI [of _ issued])
       (auto simp: DependencyManager_handleSubmit_run world_ops split: prod.splits bool.splits)
qed

lemma selectable_excludes_self:
  "service_id svc \<notin> set (map service_id (selectableServices svc availableServices))"
  by (auto simp: selectableServices_def)

text \<open>
  Claim C8, as stated, fails when the owner hands the mounted manager another service:
  the selection is reset only when the list of existing dependencies changes, so a
  target ticked while the form showed service \<open>1\<close> is still ticked when the form shows
  service \<open>2\<close>, and a submission creates the dependency of service \<open>2\<close> on itself.
\<close>

theorem C8_service_change_creates_self_dependency:
  "''2'' \<in> set (map service_id (selectableServices (sample_service True) sample_available)) \<and>
   dm_service (fold dm_step [Toggle ''2'', ServiceChanged sample_service2]
                 (mountInstance (sample_service True) sample_available []))
     = sample_service2 \<and>
   requests (snd (DependencyManager_handleSubmit (limited_api 3) returning sample_service2 []
                    (dm_state (fold dm_step [Toggle ''2'', ServiceChanged sample_service2]
                                 (mountInstance (sample_service True) sample_available [])))
                    sample_world))
     = [CreateDependency ''2'' ''2'' None]"
proof -
  have st: "dm_state (fold dm_step [Toggle ''2'', ServiceChanged sample_service2]
                        (mountInstance (sample_service True) sample_available []))
            = \<lparr>selectedDependencies = [''2''], dm_isLoading = False\<rparr>"
    by (simp add: mountInstance_def mountDependencyManager_def existingDependenciesEffect_def
        toggleDependency_def)
  have plan: "submitPlan (service_id sample_service2) []
                (selectedDependencies \<lparr>selectedDependencies = [''2''], dm_isLoading = False\<rparr>)
              = [CreateDependency ''2'' ''2'' None]"
    by (simp add: submitPlan_def sample_service2_def sample_service_def)
  have ok: "commits (limited_api 3) [CreateDependency ''2'' ''2'' None] (backend sample_world)
              = Some 1"
    by (simp add: limited_api_def sample_world_def)
  have "requests (snd (DependencyManager_handleSubmit (limited_api 3) returning sample_service2 []
                    \<lparr>selectedDependencies = [''2''], dm_isLoading = False\<rparr> sample_world))
          = [CreateDependency ''2'' ''2'' None]"
    unfolding DependencyManager_handleSubmit_run plan forEachAwait_all_commit [OF ok]
    by (simp add: returning_def sample_world_def)
  moreover have "''2'' \<in> set (map service_id
                     (selectableServices (sample_service True) sample_available))"
    by (simp add: selectableServices_def sample_available_def sample_service_def)
  moreover have "dm_service (fold dm_step [Toggle ''2'', ServiceChanged sample_service2]
                 (mountInstance (sample_service True) sample_available [])) = sample_service2"
    by simp
  ultimately show ?thesis
    unfolding st by blast
qed

lemma dm_step_invariant:
  "allowed ev v \<Longrightarrow> self_only_if_existing v \<Longrightarrow> self_only_if_existing (dm_step ev v)"
proof (cases ev)
  case (Toggle i)
  assume "allowed ev v"
  then have "i \<in> set (map service_id (selectableServices (dm_service v) (dm_available v)))"
    using Toggle by simp
  then have "i \<noteq> service_id (dm_service v)"
    using selectable_excludes_self [of "dm_service v" "dm_available v"] by metis
  moreover assume "self_only_if_existing v"
  ultimately show ?thesis
    using Toggle by (auto simp: self_only_if_existing_def toggleDependency_def)
next
  case (ExistingChanged ex)
  then show ?thesis
    by (simp add: self_only_if_existing_def existingDependenciesEffect_def)
next
  case (ServiceChanged svc)
  assume "allowed ev v"
  then show ?thesis
    using ServiceChanged by (simp add: self_only_if_existing_def)
next
  case (AvailableChanged av)
  assume "self_only_if_existing v"
  then show ?thesis
    using AvailableChanged by (simp add: self_only_if_existing_def)
qed

lemma dm_fold_invariant:
  "allowed_run evs v \<Longrightarrow> self_only_if_existing v \<Longrightarrow>
     self_only_if_existing (fold dm_step evs v)"
proof (induction evs arbitrary: v)
  case Nil
  then show ?case by simp
next
  case (Cons ev evs)
  from Cons.prems have "self_only_if_existing (dm_step ev v)"
    by (auto intro: dm_step_invariant)
  with Cons show ?case by simp
qed

text \<open>
  Claim C8, amended. The form renders no checkbox for the service it shows. Whatever
  checkboxes the user toggles and whatever lists of existing dependencies and of
  available services the owner passes, no create call of a submission has the service as
  its target, provided the owner does not change the service to one that is ticked as a
  new target at that moment.
\<close>

theorem C8_no_self_dependency:
  assumes "allowed_run evs (mountInstance svc0 available0 existing0)"
    and "v = fold dm_step evs (mountInstance svc0 available0 existing0)"
  shows "service_id (dm_service v)
           \<notin> set (map service_id (selectableServices (dm_service v) (dm_available v))) \<and>
         (\<forall>a b p. CreateDependency a b p
                     \<in> set (drop (length (requests w))
                              (requests (snd (DependencyManager_handleSubmit api own
                                 (dm_service v) (dm_existing v) (dm_state v) w))))
                   \<longrightarrow> a \<noteq> b)"
proof (intro conjI allI impI)
  show "service_id (dm_service v)
          \<notin> set (map service_id (selectableServices (dm_service v) (dm_available v)))"
    by (rule selectable_excludes_self)
next
  fix a b p
  assume in_log: "CreateDependency a b p
                     \<in> set (drop (length (requests w))
                              (requests (snd (DependencyManager_handleSubmit api own
                                 (dm_service v) (dm_existing v) (dm_state v) w))))"
  have "self_only_if_existing (mountInstance svc0 available0 existing0)"
    by (simp add: self_only_if_existing_def mountInstance_def mountDependencyManager_def
        existingDependenciesEffect_def)
  then have inv: "self_only_if_existing v"
    using dm_fold_invariant [OF assms(1)] assms(2) by simp
  obtain issued where
    "requests (snd (DependencyManager_handleSubmit api own
        (dm_service v) (dm_existing v) (dm_state v) w)) = requests w @ issued"
    and sub: "set issued \<subseteq> set (submitPlan (service_id (dm_service v)) (dm_existing v)
                                  (selectedDependencies (dm_state v)))"
    using DependencyManager_handleSubmit_requests by blast
  then have "CreateDependency a b p \<in> set issued"
    using in_log by simp
  then have "CreateDependency a b p
               \<in> set (submitPlan (service_id (dm_service v)) (dm_existing v)
                        (selectedDependencies (dm_state v)))"
    using sub by blast
  then have "a = service_id (dm_service v)" and "b \<in> set (selectedDependencies (dm_state v))"
    and "b \<notin> set (dm_existing v)"
    by (auto simp: submitPlan_def)
  then show "a \<noteq> b"
    using inv by (auto simp: self_only_if_existing_def)
qed

lemma sample_clicks_run:
  "fold dm_step sample_clicks (mountInstance (sample_service True) sample_available [''2'', ''3''])
     = \<lparr>dm_service = sample_service True, dm_available = sample_available,
        dm_existing = [''2'', ''3''], dm_state = sample_manager\<rparr>"
  by (simp add: sample_clicks_def mountInstance_def mountDependencyManager_def
      existingDependenciesEffect_def toggleDependency_def sample_manager_def)

theorem C8_no_self_dependency_witness:
  "allowed_run sample_clicks (mountInstance (sample_service True) sample_available [''2'', ''3'']) \<and>
   service_id (sample_service True)
     \<notin> set (map service_id (selectableServices (sample_service True) sample_available)) \<and>
   CreateDependency ''1'' ''4'' None
     \<in> set (drop (length (requests sample_world))
              (requests (snd (DependencyManager_handleSubmit (limited_api 3) returning
                 (sample_service True) [''2'', ''3''] sample_manager sample_world)))) \<and>
   ''1'' \<noteq> ''4''"
proof -
  have off: "allowed_run sample_clicks
               (mountInstance (sample_service True) sample_available [''2'', ''3''])"
    by (simp add: sample_clicks_def mountInstance_def sample_available_def
        selectableServices_def sample_service_def)
  have ok: "commits (limited_api 3)
              (submitPlan (service_id (sample_service True)) [''2'', ''3'']
                 (selectedDependencies sample_manager)) (backend sample_world) = Some 3"
    by (simp add: sample_plan limited_api_def sample_world_def)
  have issued: "CreateDependency ''1'' ''4'' None
     \<in> set (drop (length (requests sample_world))
              (requests (snd (DependencyManager_handleSubmit (limited_api 3) returning
                 (sample_service True) [''2'', ''3''] sample_manager sample_world))))"
    unfolding DependencyManager_handleSubmit_run forEachAwait_all_commit [OF ok]
    by (simp add: world_ops sample_plan sample_world_def returning_def)
  show ?thesis
    using C8_no_self_dependency [OF off sample_clicks_run [symmetric],
        of sample_world "limited_api 3" returning]
      off issued
    by (simp add: sample_clicks_run)
qed

end
